theory Spec2Isabelle
  imports Complex_Main
begin

section \<open>JavaScript values\<close>

text \<open>
  The values a JavaScript caller can pass to the library. A number is modelled as the real
  it denotes (NaN and the infinities are outside the model); strings are ASCII. Objects are
  references: a \<^verbatim>\<open>GameObject\<close> is the address \<open>ref\<close> of its fields in the
  store, a node of the three.js render graph (an instance of \<^verbatim>\<open>THREE.Object3D\<close>) is either
  the mesh that the \<^verbatim>\<open>GameObject\<close> at an address created in its constructor, a light, or some
  other node; any other object or function is identified by a label.
\<close>

type_synonym ref = nat

datatype Node = MeshOf ref | Light nat | Other nat

datatype jsval =
    JSUndefined
  | JSNull
  | JSBoolean bool
  | JSNumber real
  | JSString string
  | JSGameObject ref
  | JSObject3D Node
  | JSObject string

text \<open>
  \<^verbatim>\<open>String.prototype.toLowerCase\<close> on ASCII strings: the letters A to Z are mapped to a to z,
  every other character is kept.
\<close>

definition upperToLower :: "(char \<times> char) list" where
  "upperToLower = zip ''ABCDEFGHIJKLMNOPQRSTUVWXYZ'' ''abcdefghijklmnopqrstuvwxyz''"

definition toLowerChar :: "char \<Rightarrow> char" where
  "toLowerChar c = (case map_of upperToLower c of Some l \<Rightarrow> l | None \<Rightarrow> c)"

definition toLowerCase :: "string \<Rightarrow> string" where
  "toLowerCase s = map toLowerChar s"

section \<open>utils/colors.js\<close>

text \<open>The own properties of the object literal \<^verbatim>\<open>NAMED_COLORS\<close>, in source order.\<close>

definition NAMED_COLORS :: "(string \<times> real) list" where
  "NAMED_COLORS =
   [(''red'', 0xff0000), (''green'', 0x00ff00), (''blue'', 0x0000ff), (''white'', 0xffffff),
    (''black'', 0x000000), (''yellow'', 0xffff00), (''cyan'', 0x00ffff), (''magenta'', 0xff00ff),
    (''orange'', 0xff8c00), (''purple'', 0x8b00ff), (''pink'', 0xff69b4), (''lime'', 0x32cd32),
    (''teal'', 0x008080), (''indigo'', 0x4b0082), (''coral'', 0xff7f50), (''salmon'', 0xfa8072),
    (''gold'', 0xffd700), (''silver'', 0xc0c0c0),
    (''gray'', 0x808080), (''grey'', 0x808080), (''lightgray'', 0xd3d3d3), (''darkgray'', 0x404040),
    (''sky'', 0x87ceeb), (''forest'', 0x228b22), (''ocean'', 0x006994), (''sunset'', 0xff6b35),
    (''midnight'', 0x191970), (''steel'', 0x4a6fa5), (''copper'', 0xb87333), (''bronze'', 0xcd7f32)]"

text \<open>
  \<^verbatim>\<open>NAMED_COLORS\<close> is a plain object literal, so its prototype is \<^verbatim>\<open>Object.prototype\<close> and the
  property read \<^verbatim>\<open>NAMED_COLORS[key]\<close> falls through to the inherited properties when
  \<^verbatim>\<open>key\<close> is not an own property. These are the properties every plain object inherits
  (ECMAScript, Object.prototype); each is a function, except \<^verbatim>\<open>__proto__\<close>, an accessor
  that yields the prototype object itself.
\<close>

definition Object_prototype_keys :: "string list" where
  "Object_prototype_keys =
   [''constructor'', ''hasOwnProperty'', ''isPrototypeOf'', ''propertyIsEnumerable'',
    ''toLocaleString'', ''toString'', ''valueOf'', ''__defineGetter__'', ''__defineSetter__'',
    ''__lookupGetter__'', ''__lookupSetter__'']"

definition Object_prototype_get :: "string \<Rightarrow> jsval" where
  "Object_prototype_get key =
     (if key = ''constructor'' then JSObject ''Object''
      else if key = ''__proto__'' then JSObject ''Object.prototype''
      else if key \<in> set Object_prototype_keys then JSObject (''Object.prototype.'' @ key)
      else JSUndefined)"

definition NAMED_COLORS_get :: "string \<Rightarrow> jsval" where
  "NAMED_COLORS_get key =
     (case map_of NAMED_COLORS key of
        Some n \<Rightarrow> JSNumber n
      | None \<Rightarrow> Object_prototype_get key)"

text \<open>
  \<^verbatim>\<open>parseColor(color)\<close>: the three branches of the source, in its order. The function has
  no \<^verbatim>\<open>throw\<close> and calls nothing that throws on these inputs, so its result is a plain
  value.
\<close>

fun parseColor :: "jsval \<Rightarrow> jsval" where
  "parseColor (JSNumber n) = JSNumber n"
| "parseColor (JSString color) =
     (let lowerColor = toLowerCase color
      in if NAMED_COLORS_get lowerColor \<noteq> JSUndefined
         then NAMED_COLORS_get lowerColor
         else JSString color)"
| "parseColor _ = JSNumber 0x4a90d9"

section \<open>Arithmetic on numbers\<close>

text \<open>
  A JavaScript number is an IEEE 754 double: \<^verbatim>\<open>+\<close> and \<^verbatim>\<open>*\<close> yield the double nearest to
  the exact result, a tie going to the double whose last mantissa bit is even. A nonzero
  real \<open>x\<close> lies in the binade of exponent \<open>\<lfloor>log 2 \<bar>x\<bar>\<rfloor>\<close>, where doubles are spaced
  \<open>2\<close> to the power of that exponent minus 52 apart (but never closer than the spacing
  of the subnormal numbers). Overflow to an infinity and the sign of zero are outside the
  model. \<^verbatim>\<open>Math.sin\<close>, whose precision ECMAScript leaves to the implementation, is
  modelled as the correctly rounded sine.
\<close>

definition roundTiesToEven :: "real \<Rightarrow> int" where
  "roundTiesToEven q =
     (let n = \<lfloor>q\<rfloor>; r = q - of_int n
      in if r < 1 / 2 then n else if 1 / 2 < r then n + 1 else if even n then n else n + 1)"

definition exponent :: "real \<Rightarrow> int" where
  "exponent x = \<lfloor>log 2 \<bar>x\<bar>\<rfloor>"

definition ulp :: "real \<Rightarrow> real" where
  "ulp x = 2 powr of_int (max (exponent x - 52) (- 1074))"

definition roundToDouble :: "real \<Rightarrow> real" where
  "roundToDouble x = (if x = 0 then 0 else of_int (roundTiesToEven (x / ulp x)) * ulp x)"

definition isDouble :: "real \<Rightarrow> bool" where
  "isDouble x = (roundToDouble x = x)"

definition fadd :: "real \<Rightarrow> real \<Rightarrow> real" where
  "fadd x y = roundToDouble (x + y)"

definition fmul :: "real \<Rightarrow> real \<Rightarrow> real" where
  "fmul x y = roundToDouble (x * y)"

definition Math_sin :: "real \<Rightarrow> real" where
  "Math_sin x = roundToDouble (sin x)"

section \<open>The three.js values the wrapper reads and writes\<close>

text \<open>
  \<^verbatim>\<open>THREE.Vector3\<close> and \<^verbatim>\<open>THREE.Euler\<close> (fields x, y, z; an Euler angle is in radians),
  \<^verbatim>\<open>THREE.MathUtils.degToRad\<close> (\<^verbatim>\<open>degrees * DEG2RAD\<close> with \<^verbatim>\<open>DEG2RAD = Math.PI / 180\<close>,
  taken as the exact product with the exact \<open>pi / 180\<close>),
  the three material classes and \<^verbatim>\<open>THREE.Mesh\<close>. Geometry parameters are not modelled:
  a geometry is known by its class.
\<close>

record Vector3 =
  vec_x :: real
  vec_y :: real
  vec_z :: real

record Euler =
  rot_x :: real
  rot_y :: real
  rot_z :: real

definition degToRad :: "real \<Rightarrow> real" where
  "degToRad degrees = degrees * (pi / 180)"

datatype Geometry = BoxGeometry | SphereGeometry | PlaneGeometry | CylinderGeometry | TorusGeometry

datatype MaterialClass = MeshBasicMaterial | MeshPhongMaterial | MeshStandardMaterial

text \<open>
  The \<open>color\<close> of a material is the value handed to three.js (the \<^verbatim>\<open>color\<close> option of the
  material's constructor, or the argument of \<^verbatim>\<open>Color.set\<close>), not the RGB triple that three.js
  derives from it.
\<close>

record Material =
  materialClass :: MaterialClass
  color :: jsval
  wireframe :: bool

record Mesh =
  geometry :: Geometry
  material :: Material
  position :: Vector3
  rotation :: Euler
  scale :: Vector3
  visible :: bool

text \<open>\<^verbatim>\<open>new THREE.Mesh(geometry, material)\<close>: at the origin, unrotated, unit scale, visible.\<close>

definition Mesh_new :: "Geometry \<Rightarrow> Material \<Rightarrow> Mesh" where
  "Mesh_new g m =
     \<lparr>geometry = g, material = m,
      position = \<lparr>vec_x = 0, vec_y = 0, vec_z = 0\<rparr>,
      rotation = \<lparr>rot_x = 0, rot_y = 0, rot_z = 0\<rparr>,
      scale = \<lparr>vec_x = 1, vec_y = 1, vec_z = 1\<rparr>,
      visible = True\<rparr>"

section \<open>The built-in \<^verbatim>\<open>Map\<close>\<close>

text \<open>
  A JavaScript \<^verbatim>\<open>Map\<close> iterates in insertion order: \<^verbatim>\<open>set\<close> on a key that is present
  overwrites the value where the entry stands, \<^verbatim>\<open>set\<close> on a new key appends an entry,
  \<^verbatim>\<open>delete\<close> removes the entry. It is modelled as the list of its entries in iteration
  order.
\<close>

fun Map_set :: "'k \<Rightarrow> 'v \<Rightarrow> ('k \<times> 'v) list \<Rightarrow> ('k \<times> 'v) list" where
  "Map_set k v [] = [(k, v)]"
| "Map_set k v ((k', v') # es) =
     (if k' = k then (k, v) # es else (k', v') # Map_set k v es)"

fun Map_delete :: "'k \<Rightarrow> ('k \<times> 'v) list \<Rightarrow> ('k \<times> 'v) list" where
  "Map_delete k [] = []"
| "Map_delete k ((k', v') # es) = (if k' = k then es else (k', v') # Map_delete k es)"

definition Map_keys :: "('k \<times> 'v) list \<Rightarrow> 'k list" where
  "Map_keys es = map fst es"

definition Map_values :: "('k \<times> 'v) list \<Rightarrow> 'v list" where
  "Map_values es = map snd es"


section \<open>objects/GameObject.js\<close>

text \<open>
  An update function is called as \<^verbatim>\<open>fn(obj, delta, elapsed)\<close>. The built-in animations
  read and write \<^verbatim>\<open>obj.mesh\<close> only, and an update function is modelled as what it does to
  the mesh. The private members \<^verbatim>\<open>_animations\<close>, \<^verbatim>\<open>_customUpdates\<close>, \<^verbatim>\<open>_setAnimation\<close> and
  \<^verbatim>\<open>_createMaterial\<close> (and \<^verbatim>\<open>_animate\<close> of the engine) are written without the leading
  underscore.
\<close>

type_synonym updateFn = "Mesh \<Rightarrow> real \<Rightarrow> real \<Rightarrow> Mesh"

record GameObject =
  name :: string
  mesh :: Mesh
  animations :: "(string \<times> updateFn) list"
  customUpdates :: "updateFn list"

text \<open>
  The options object of the constructor: a key that is absent (or \<^verbatim>\<open>undefined\<close>) is
  \<open>None\<close>, and the destructuring pattern of the source gives it its default.
\<close>

record Options =
  opt_name :: "string option"
  opt_color :: "jsval option"
  opt_x :: "real option"
  opt_y :: "real option"
  opt_z :: "real option"
  opt_rotationX :: "real option"
  opt_rotationY :: "real option"
  opt_rotationZ :: "real option"
  opt_scale :: "real option"
  opt_wireframe :: "bool option"
  opt_materialType :: "string option"

definition orDefault :: "'a option \<Rightarrow> 'a \<Rightarrow> 'a" where
  "orDefault v d = (case v of None \<Rightarrow> d | Some a \<Rightarrow> a)"

datatype jserror = Error string | TypeError

text \<open>
  The class of the object under construction: \<^verbatim>\<open>GameObject\<close> itself, whose
  \<^verbatim>\<open>createGeometry\<close> throws, or one of the primitives that override it.
\<close>

datatype GameObjectClass = GameObjectBase | Box | Sphere | Plane | Cylinder | Torus

fun createGeometry :: "GameObjectClass \<Rightarrow> jserror + Geometry" where
  "createGeometry GameObjectBase =
     Inl (Error ''GameObject.createGeometry() must be implemented by subclass'')"
| "createGeometry Box = Inr BoxGeometry"
| "createGeometry Sphere = Inr SphereGeometry"
| "createGeometry Plane = Inr PlaneGeometry"
| "createGeometry Cylinder = Inr CylinderGeometry"
| "createGeometry Torus = Inr TorusGeometry"

definition createMaterial :: "jsval \<Rightarrow> bool \<Rightarrow> string \<Rightarrow> Material" where
  "createMaterial c w materialType =
     (let parsedColor = parseColor c
      in \<lparr>materialClass =
            (if materialType = ''basic'' then MeshBasicMaterial
             else if materialType = ''phong'' then MeshPhongMaterial
             else MeshStandardMaterial),
          color = parsedColor, wireframe = w\<rparr>)"

definition setPosition :: "real \<Rightarrow> real \<Rightarrow> real \<Rightarrow> GameObject \<Rightarrow> GameObject" where
  "setPosition x y z this =
     this\<lparr>mesh := (mesh this)\<lparr>position := \<lparr>vec_x = x, vec_y = y, vec_z = z\<rparr>\<rparr>\<rparr>"

definition setRotation :: "real \<Rightarrow> real \<Rightarrow> real \<Rightarrow> GameObject \<Rightarrow> GameObject" where
  "setRotation x y z this =
     this\<lparr>mesh := (mesh this)\<lparr>rotation :=
       \<lparr>rot_x = degToRad x, rot_y = degToRad y, rot_z = degToRad z\<rparr>\<rparr>\<rparr>"

definition setScale :: "real \<Rightarrow> GameObject \<Rightarrow> GameObject" where
  "setScale s this =
     this\<lparr>mesh := (mesh this)\<lparr>scale := \<lparr>vec_x = s, vec_y = s, vec_z = s\<rparr>\<rparr>\<rparr>"

definition setScaleXYZ :: "real \<Rightarrow> real \<Rightarrow> real \<Rightarrow> GameObject \<Rightarrow> GameObject" where
  "setScaleXYZ x y z this =
     this\<lparr>mesh := (mesh this)\<lparr>scale := \<lparr>vec_x = x, vec_y = y, vec_z = z\<rparr>\<rparr>\<rparr>"

definition setColor :: "jsval \<Rightarrow> GameObject \<Rightarrow> GameObject" where
  "setColor c this =
     this\<lparr>mesh := (mesh this)\<lparr>material := (material (mesh this))\<lparr>color := parseColor c\<rparr>\<rparr>\<rparr>"

definition setVisible :: "bool \<Rightarrow> GameObject \<Rightarrow> GameObject" where
  "setVisible v this = this\<lparr>mesh := (mesh this)\<lparr>visible := v\<rparr>\<rparr>"

text \<open>
  The constructor. The two registries are created last, after the transforms are applied,
  as in the source.
\<close>

definition GameObject_new :: "GameObjectClass \<Rightarrow> Options \<Rightarrow> jserror + GameObject" where
  "GameObject_new cls options =
     (case createGeometry cls of
        Inl e \<Rightarrow> Inl e
      | Inr g \<Rightarrow>
          (let m = createMaterial (orDefault (opt_color options) (JSNumber 0x4a90d9))
                     (orDefault (opt_wireframe options) False)
                     (orDefault (opt_materialType options) ''standard'');
               this = \<lparr>name = orDefault (opt_name options) [], mesh = Mesh_new g m,
                       animations = [], customUpdates = []\<rparr>;
               this = setPosition (orDefault (opt_x options) 0) (orDefault (opt_y options) 0)
                        (orDefault (opt_z options) 0) this;
               this = setRotation (orDefault (opt_rotationX options) 0)
                        (orDefault (opt_rotationY options) 0)
                        (orDefault (opt_rotationZ options) 0) this;
               this = setScale (orDefault (opt_scale options) 1) this
           in Inr (this\<lparr>animations := [], customUpdates := []\<rparr>)))"

definition onUpdate :: "updateFn \<Rightarrow> GameObject \<Rightarrow> GameObject" where
  "onUpdate fn this = this\<lparr>customUpdates := customUpdates this @ [fn]\<rparr>"

definition setAnimation :: "string \<Rightarrow> updateFn \<Rightarrow> GameObject \<Rightarrow> GameObject" where
  "setAnimation n fn this = this\<lparr>animations := Map_set n fn (animations this)\<rparr>"

definition stopAnimation :: "string \<Rightarrow> GameObject \<Rightarrow> GameObject" where
  "stopAnimation n this = this\<lparr>animations := Map_delete n (animations this)\<rparr>"

text \<open>
  \<^verbatim>\<open>update(delta, elapsed)\<close>: the two loops of the source, first over the values of the
  named registry in iteration order, then over the custom updates.
\<close>

fun runUpdates :: "updateFn list \<Rightarrow> real \<Rightarrow> real \<Rightarrow> Mesh \<Rightarrow> Mesh" where
  "runUpdates [] delta elapsed m = m"
| "runUpdates (fn # fns) delta elapsed m = runUpdates fns delta elapsed (fn m delta elapsed)"

definition GameObject_update :: "real \<Rightarrow> real \<Rightarrow> GameObject \<Rightarrow> GameObject" where
  "GameObject_update delta elapsed this =
     (let m1 = runUpdates (Map_values (animations this)) delta elapsed (mesh this);
          m2 = runUpdates (customUpdates this) delta elapsed m1
      in this\<lparr>mesh := m2\<rparr>)"

definition clearAnimations :: "GameObject \<Rightarrow> GameObject" where
  "clearAnimations this = this\<lparr>animations := [], customUpdates := []\<rparr>"

record SpinOptions =
  speedX :: "real option"
  speedY :: "real option"
  speedZ :: "real option"

text \<open>
  The arrow function that \<^verbatim>\<open>spin\<close> registers, with the three speeds it closes over as
  parameters.
\<close>

definition spinFn :: "real \<Rightarrow> real \<Rightarrow> real \<Rightarrow> updateFn" where
  "spinFn sx sy sz =
     (\<lambda>m delta elapsed. m\<lparr>rotation :=
        \<lparr>rot_x = fadd (rot_x (rotation m)) (fmul sx delta),
         rot_y = fadd (rot_y (rotation m)) (fmul sy delta),
         rot_z = fadd (rot_z (rotation m)) (fmul sz delta)\<rparr>\<rparr>)"

definition spin :: "SpinOptions \<Rightarrow> GameObject \<Rightarrow> GameObject" where
  "spin options this =
     (let sx = orDefault (speedX options) 0;
          sy = orDefault (speedY options) 1;
          sz = orDefault (speedZ options) 0
      in setAnimation ''spin'' (spinFn sx sy sz) this)"

record FloatOptions =
  amplitude :: "real option"
  speed :: "real option"

text \<open>
  The arrow function that \<^verbatim>\<open>float\<close> registers, with the variables it closes over
  (\<^verbatim>\<open>startY\<close>, \<^verbatim>\<open>speed\<close>, \<^verbatim>\<open>amplitude\<close>) as parameters.
\<close>

definition floatFn :: "real \<Rightarrow> real \<Rightarrow> real \<Rightarrow> updateFn" where
  "floatFn startY s a =
     (\<lambda>m delta elapsed. m\<lparr>position :=
        (position m)\<lparr>vec_y := fadd startY (fmul (Math_sin (fmul elapsed s)) a)\<rparr>\<rparr>)"

definition float :: "FloatOptions \<Rightarrow> GameObject \<Rightarrow> GameObject" where
  "float options this =
     (let a = orDefault (amplitude options) 0.5;
          s = orDefault (speed options) 1;
          startY = vec_y (position (mesh this))
      in setAnimation ''float'' (floatFn startY s a) this)"

section \<open>core/Scene.js\<close>

text \<open>
  \<^verbatim>\<open>Array.prototype.indexOf\<close> (strict equality, the first match, \<open>-1\<close> when there is none)
  and \<^verbatim>\<open>splice(index, 1)\<close>.
\<close>

fun indexOf :: "'a list \<Rightarrow> 'a \<Rightarrow> int" where
  "indexOf [] a = - 1"
| "indexOf (b # bs) a =
     (if b = a then 0 else (let i = indexOf bs a in if i > - 1 then i + 1 else - 1))"

definition splice1 :: "nat \<Rightarrow> 'a list \<Rightarrow> 'a list" where
  "splice1 i xs = take i xs @ drop (Suc i) xs"

text \<open>
  The children of the \<^verbatim>\<open>THREE.Scene\<close> that the wrapper owns (the render graph), as three.js
  keeps them: \<^verbatim>\<open>Object3D.add\<close> detaches the node from its parent and appends it,
  \<^verbatim>\<open>Object3D.remove\<close> takes the node out if it is a child.
\<close>

definition Object3D_add :: "Node \<Rightarrow> Node list \<Rightarrow> Node list" where
  "Object3D_add n cs = remove1 n cs @ [n]"

definition Object3D_remove :: "Node \<Rightarrow> Node list \<Rightarrow> Node list" where
  "Object3D_remove n cs = remove1 n cs"

text \<open>
  The fields of a \<^verbatim>\<open>Scene\<close> that \<^verbatim>\<open>add\<close>, \<^verbatim>\<open>remove\<close>, \<^verbatim>\<open>update\<close> and \<^verbatim>\<open>findByName\<close>
  use: the tracked array of \<^verbatim>\<open>GameObject\<close> references and the render graph. The camera
  and the background are not modelled.
\<close>

record Scene =
  gameObjects :: "ref list"
  children :: "Node list"

definition Scene_new :: "bool \<Rightarrow> Scene" where
  "Scene_new defaultLighting =
     \<lparr>gameObjects = [],
      children = (if defaultLighting
                  then Object3D_add (Light 1) (Object3D_add (Light 0) [])
                  else [])\<rparr>"

text \<open>
  \<^verbatim>\<open>add(object)\<close> and \<^verbatim>\<open>remove(object)\<close>. The test \<^verbatim>\<open>object.mesh\<close> reads a property of the
  argument: on \<^verbatim>\<open>undefined\<close> and \<^verbatim>\<open>null\<close> the read throws a \<^verbatim>\<open>TypeError\<close>; on a
  \<^verbatim>\<open>GameObject\<close> it yields its mesh, which is truthy; on every other value of the model it
  yields \<^verbatim>\<open>undefined\<close>, and the \<^verbatim>\<open>instanceof THREE.Object3D\<close> test decides.
\<close>

fun Scene_add :: "jsval \<Rightarrow> Scene \<Rightarrow> jserror + Scene" where
  "Scene_add JSUndefined this = Inl TypeError"
| "Scene_add JSNull this = Inl TypeError"
| "Scene_add (JSGameObject r) this =
     Inr (this\<lparr>gameObjects := gameObjects this @ [r],
              children := Object3D_add (MeshOf r) (children this)\<rparr>)"
| "Scene_add (JSObject3D n) this = Inr (this\<lparr>children := Object3D_add n (children this)\<rparr>)"
| "Scene_add _ this = Inr this"

fun Scene_remove :: "jsval \<Rightarrow> Scene \<Rightarrow> jserror + Scene" where
  "Scene_remove JSUndefined this = Inl TypeError"
| "Scene_remove JSNull this = Inl TypeError"
| "Scene_remove (JSGameObject r) this =
     (let index = indexOf (gameObjects this) r;
          this1 = (if index > - 1
                   then this\<lparr>gameObjects := splice1 (nat index) (gameObjects this)\<rparr>
                   else this)
      in Inr (this1\<lparr>children := Object3D_remove (MeshOf r) (children this1)\<rparr>))"
| "Scene_remove (JSObject3D n) this = Inr (this\<lparr>children := Object3D_remove n (children this)\<rparr>)"
| "Scene_remove _ this = Inr this"

text \<open>
  The store of \<^verbatim>\<open>GameObject\<close>s: what each address holds. \<^verbatim>\<open>update(delta, elapsed)\<close> calls
  \<^verbatim>\<open>update\<close> on every tracked object in order; \<^verbatim>\<open>findByName(name)\<close> is
  \<^verbatim>\<open>Array.prototype.find\<close>, which yields \<^verbatim>\<open>undefined\<close> when no element matches.
\<close>

type_synonym store = "ref \<Rightarrow> GameObject"

fun Scene_updateAll :: "ref list \<Rightarrow> real \<Rightarrow> real \<Rightarrow> store \<Rightarrow> store" where
  "Scene_updateAll [] delta elapsed h = h"
| "Scene_updateAll (r # rs) delta elapsed h =
     Scene_updateAll rs delta elapsed (h(r := GameObject_update delta elapsed (h r)))"

definition Scene_update :: "real \<Rightarrow> real \<Rightarrow> Scene \<Rightarrow> store \<Rightarrow> store" where
  "Scene_update delta elapsed this h = Scene_updateAll (gameObjects this) delta elapsed h"

definition Scene_findByName :: "store \<Rightarrow> string \<Rightarrow> Scene \<Rightarrow> jsval" where
  "Scene_findByName h n this =
     (case find (\<lambda>r. name (h r) = n) (gameObjects this) of
        Some r \<Rightarrow> JSGameObject r
      | None \<Rightarrow> JSUndefined)"

section \<open>core/Engine.js\<close>

text \<open>
  The engine's two mutable fields, and the world it runs in: the store of objects, the
  scenes by address, the callbacks registered with \<^verbatim>\<open>requestAnimationFrame\<close> for the next
  frame (every one of them is \<^verbatim>\<open>this._animate\<close> bound to the engine, so their number is
  all there is to know), and the scenes handed to \<^verbatim>\<open>renderer.render\<close> so far, oldest first.
  \<^verbatim>\<open>activeScene\<close> is \<open>None\<close> for \<^verbatim>\<open>null\<close>.
\<close>

record Engine =
  isRunning :: bool
  activeScene :: "ref option"

record World =
  objects :: store
  scenes :: "ref \<Rightarrow> Scene"
  engine :: Engine
  rafQueue :: nat
  drawCalls :: "ref list"

definition Engine_new :: Engine where
  "Engine_new = \<lparr>isRunning = False, activeScene = None\<rparr>"

text \<open>
  \<^verbatim>\<open>_animate()\<close>. \<open>delta\<close> and \<open>elapsed\<close> are what \<^verbatim>\<open>clock.getDelta()\<close> and
  \<^verbatim>\<open>clock.getElapsedTime()\<close> return in this call.
\<close>

definition Engine_animate :: "real \<Rightarrow> real \<Rightarrow> World \<Rightarrow> World" where
  "Engine_animate delta elapsed w =
     (if \<not> isRunning (engine w) then w
      else
        (let w1 = w\<lparr>rafQueue := Suc (rafQueue w)\<rparr>
         in case activeScene (engine w1) of
              None \<Rightarrow> w1
            | Some s \<Rightarrow>
                w1\<lparr>objects := Scene_update delta elapsed (scenes w1 s) (objects w1),
                   drawCalls := drawCalls w1 @ [s]\<rparr>))"

definition Engine_run :: "ref option \<Rightarrow> real \<Rightarrow> real \<Rightarrow> World \<Rightarrow> World" where
  "Engine_run scene delta elapsed w =
     Engine_animate delta elapsed
       (w\<lparr>engine := (engine w)\<lparr>activeScene := scene, isRunning := True\<rparr>\<rparr>)"

definition Engine_stop :: "World \<Rightarrow> World" where
  "Engine_stop w = w\<lparr>engine := (engine w)\<lparr>isRunning := False\<rparr>\<rparr>"

text \<open>
  One display frame of the host: the callbacks registered so far are taken off the queue
  and called one after the other; what they register is for the frame after.
\<close>

fun fire :: "nat \<Rightarrow> real \<Rightarrow> real \<Rightarrow> World \<Rightarrow> World" where
  "fire 0 delta elapsed w = w"
| "fire (Suc k) delta elapsed w = fire k delta elapsed (Engine_animate delta elapsed w)"

definition frame :: "real \<Rightarrow> real \<Rightarrow> World \<Rightarrow> World" where
  "frame delta elapsed w = fire (rafQueue w) delta elapsed (w\<lparr>rafQueue := 0\<rparr>)"

datatype event = Run "ref option" real real | Stop | Frame real real

fun step :: "World \<Rightarrow> event \<Rightarrow> World" where
  "step w (Run scene delta elapsed) = Engine_run scene delta elapsed w"
| "step w Stop = Engine_stop w"
| "step w (Frame delta elapsed) = frame delta elapsed w"

definition exec :: "event list \<Rightarrow> World \<Rightarrow> World" where
  "exec evs w = foldl step w evs"

text \<open>A world with a freshly constructed engine: nothing registered, nothing drawn.\<close>

definition World_new :: "store \<Rightarrow> (ref \<Rightarrow> Scene) \<Rightarrow> World" where
  "World_new h ss =
     \<lparr>objects = h, scenes = ss, engine = Engine_new, rafQueue = 0, drawCalls = []\<rparr>"

section \<open>Sequences of calls on one object\<close>

text \<open>
  The public methods of a \<^verbatim>\<open>GameObject\<close> (and \<^verbatim>\<open>_setAnimation\<close>), as calls a program can
  make on an object after it is constructed.
\<close>

datatype call =
    SetPosition real real real
  | SetRotation real real real
  | SetScale real
  | SetScaleXYZ real real real
  | SetColor jsval
  | SetVisible bool
  | OnUpdate updateFn
  | SetAnimation string updateFn
  | StopAnimation string
  | Update real real
  | ClearAnimations
  | Spin SpinOptions
  | Float FloatOptions

fun perform :: "GameObject \<Rightarrow> call \<Rightarrow> GameObject" where
  "perform this (SetPosition x y z) = setPosition x y z this"
| "perform this (SetRotation x y z) = setRotation x y z this"
| "perform this (SetScale s) = setScale s this"
| "perform this (SetScaleXYZ x y z) = setScaleXYZ x y z this"
| "perform this (SetColor c) = setColor c this"
| "perform this (SetVisible v) = setVisible v this"
| "perform this (OnUpdate fn) = onUpdate fn this"
| "perform this (SetAnimation n fn) = setAnimation n fn this"
| "perform this (StopAnimation n) = stopAnimation n this"
| "perform this (Update delta elapsed) = GameObject_update delta elapsed this"
| "perform this ClearAnimations = clearAnimations this"
| "perform this (Spin options) = spin options this"
| "perform this (Float options) = float options this"

definition performAll :: "call list \<Rightarrow> GameObject \<Rightarrow> GameObject" where
  "performAll cs this = foldl perform this cs"

section \<open>Kinds of argument\<close>

text \<open>
  What \<^verbatim>\<open>Scene.add\<close> and \<^verbatim>\<open>Scene.remove\<close> can tell about their argument: whether it is
  \<^verbatim>\<open>undefined\<close> or \<^verbatim>\<open>null\<close>, whether it has a (truthy) \<^verbatim>\<open>mesh\<close> property, whether it is
  an instance of \<^verbatim>\<open>THREE.Object3D\<close>.
\<close>

fun nullish :: "jsval \<Rightarrow> bool" where
  "nullish JSUndefined = True"
| "nullish JSNull = True"
| "nullish _ = False"

fun hasMesh :: "jsval \<Rightarrow> bool" where
  "hasMesh (JSGameObject r) = True"
| "hasMesh _ = False"

fun instanceofObject3D :: "jsval \<Rightarrow> bool" where
  "instanceofObject3D (JSObject3D n) = True"
| "instanceofObject3D _ = False"

section \<open>The program of main.js\<close>

text \<open>
  The first object that main.js builds,
  \<^verbatim>\<open>new Box({ color: 'coral', x: -3 }).spin({ speedX: 0.5, speedY: 1 })\<close>: its options, the
  object the constructor yields for them, and a world in which it stands at every address,
  every scene tracks the object at address 0 next to the two default lights, and the engine
  is freshly constructed.
\<close>

definition coralOptions :: Options where
  "coralOptions =
     \<lparr>opt_name = None, opt_color = Some (JSString ''coral''), opt_x = Some (- 3),
      opt_y = None, opt_z = None, opt_rotationX = None, opt_rotationY = None,
      opt_rotationZ = None, opt_scale = None, opt_wireframe = None, opt_materialType = None\<rparr>"

definition coralBox :: GameObject where
  "coralBox =
     \<lparr>name = [],
      mesh = \<lparr>geometry = BoxGeometry,
              material = \<lparr>materialClass = MeshStandardMaterial, color = JSNumber 0xff7f50,
                          wireframe = False\<rparr>,
              position = \<lparr>vec_x = - 3, vec_y = 0, vec_z = 0\<rparr>,
              rotation = \<lparr>rot_x = 0, rot_y = 0, rot_z = 0\<rparr>,
              scale = \<lparr>vec_x = 1, vec_y = 1, vec_z = 1\<rparr>,
              visible = True\<rparr>,
      animations = [], customUpdates = []\<rparr>"

definition mainScene :: Scene where
  "mainScene = \<lparr>gameObjects = [0], children = [Light 0, Light 1, MeshOf 0]\<rparr>"

definition mainWorld :: World where
  "mainWorld =
     World_new (\<lambda>r. spin \<lparr>speedX = Some 0.5, speedY = Some 1, speedZ = None\<rparr> coralBox)
       (\<lambda>s. mainScene)"


section \<open>The colour resolver\<close>

lemma toLowerCase_Nil [simp]: "toLowerCase [] = []"
  by (simp add: toLowerCase_def)

lemma toLowerCase_Cons [simp]: "toLowerCase (c # s) = toLowerChar c # toLowerCase s"
  by (simp add: toLowerCase_def)

lemma toLowerChar_not_upper: "toLowerChar c \<notin> set ''ABCDEFGHIJKLMNOPQRSTUVWXYZ''"
  by (auto simp: toLowerChar_def upperToLower_def split: option.splits if_splits)

lemma toLowerCase_no_upper:
  "c \<in> set ''ABCDEFGHIJKLMNOPQRSTUVWXYZ'' \<Longrightarrow> c \<notin> set (toLowerCase s)"
  using toLowerChar_not_upper by (auto simp: toLowerCase_def)

text \<open>Numbers pass through, and every value that is neither a number nor a string gets the default.\<close>

lemma parseColor_number: "parseColor (JSNumber n) = JSNumber n"
  by simp

lemma parseColor_other:
  "parseColor JSUndefined = JSNumber 0x4a90d9"
  "parseColor JSNull = JSNumber 0x4a90d9"
  "parseColor (JSBoolean b) = JSNumber 0x4a90d9"
  "parseColor (JSGameObject r) = JSNumber 0x4a90d9"
  "parseColor (JSObject3D nd) = JSNumber 0x4a90d9"
  "parseColor (JSObject l) = JSNumber 0x4a90d9"
  by simp_all

lemma parseColor_RED: "parseColor (JSString ''RED'') = JSNumber 0xff0000"
  by (simp add: NAMED_COLORS_get_def NAMED_COLORS_def toLowerChar_def upperToLower_def)

lemma parseColor_hex_string: "parseColor (JSString ''#ff0000'') = JSString ''#ff0000''"
  by (simp add: NAMED_COLORS_get_def NAMED_COLORS_def toLowerChar_def upperToLower_def
      Object_prototype_get_def Object_prototype_keys_def)

lemma parseColor_case_insensitive:
  "toLowerCase s = toLowerCase t \<Longrightarrow> NAMED_COLORS_get (toLowerCase s) \<noteq> JSUndefined \<Longrightarrow>
   parseColor (JSString s) = parseColor (JSString t)"
  by (simp add: Let_def)

text \<open>
  A lower-cased string is none of the inherited property names that contain a capital
  letter, which leaves \<^verbatim>\<open>constructor\<close> and \<^verbatim>\<open>__proto__\<close>.
\<close>

lemma toLowerCase_not_inherited:
  "toLowerCase s \<noteq> ''constructor'' \<Longrightarrow> toLowerCase s \<notin> set Object_prototype_keys"
proof
  assume n: "toLowerCase s \<noteq> ''constructor''" and m: "toLowerCase s \<in> set Object_prototype_keys"
  have O: "CHR ''O'' \<notin> set (toLowerCase s)" and P: "CHR ''P'' \<notin> set (toLowerCase s)"
    and I: "CHR ''I'' \<notin> set (toLowerCase s)" and L: "CHR ''L'' \<notin> set (toLowerCase s)"
    and S: "CHR ''S'' \<notin> set (toLowerCase s)" and G: "CHR ''G'' \<notin> set (toLowerCase s)"
    by (simp_all add: toLowerCase_no_upper)
  from m n consider "toLowerCase s = ''hasOwnProperty''" | "toLowerCase s = ''isPrototypeOf''"
    | "toLowerCase s = ''propertyIsEnumerable''" | "toLowerCase s = ''toLocaleString''"
    | "toLowerCase s = ''toString''" | "toLowerCase s = ''valueOf''"
    | "toLowerCase s = ''__defineGetter__''" | "toLowerCase s = ''__defineSetter__''"
    | "toLowerCase s = ''__lookupGetter__''" | "toLowerCase s = ''__lookupSetter__''"
    by (auto simp: Object_prototype_keys_def)
  then show False
  proof cases
    case 1 with O show False by simp
  next
    case 2 with P show False by simp
  next
    case 3 with I show False by simp
  next
    case 4 with L show False by simp
  next
    case 5 with S show False by simp
  next
    case 6 with O show False by simp
  next
    case 7 with G show False by simp
  next
    case 8 with S show False by simp
  next
    case 9 with G show False by simp
  next
    case 10 with S show False by simp
  qed
qed

text \<open>
  Away from those two names a string resolves as a table lookup of its lower-cased form:
  the table's number on a match, the string itself otherwise.
\<close>

lemma parseColor_string:
  assumes "toLowerCase s \<noteq> ''constructor''" and "toLowerCase s \<noteq> ''__proto__''"
  shows "parseColor (JSString s) =
           (case map_of NAMED_COLORS (toLowerCase s) of
              Some n \<Rightarrow> JSNumber n
            | None \<Rightarrow> JSString s)"
  using assms toLowerCase_not_inherited [OF assms(1)]
  by (simp add: Let_def NAMED_COLORS_get_def Object_prototype_get_def split: option.splits)

text \<open>
  C5. The colour resolver returns a number unchanged, a string that matches the
  named-colour table (case-insensitively) as the table's number, any other string
  unchanged, and a fixed default for every other value. On the string
  \<^verbatim>\<open>constructor\<close>, which is no key of the table, \<^verbatim>\<open>parseColor\<close> returns neither the string
  nor a number: the read \<^verbatim>\<open>NAMED_COLORS[lowerColor]\<close> finds the inherited property and the
  function \<^verbatim>\<open>Object\<close> is returned; on \<^verbatim>\<open>__proto__\<close> it is the prototype object.
\<close>

theorem parseColor_inherited_key:
  "map_of NAMED_COLORS (toLowerCase ''constructor'') = None \<and>
   parseColor (JSString ''constructor'') = JSObject ''Object'' \<and>
   parseColor (JSString ''__proto__'') = JSObject ''Object.prototype''"
  by (simp add: NAMED_COLORS_get_def NAMED_COLORS_def toLowerChar_def upperToLower_def
      Object_prototype_get_def)

section \<open>The entries of a \<^verbatim>\<open>Map\<close>\<close>

lemma Map_keys_Map_set_mem:
  "k \<in> set (Map_keys es) \<Longrightarrow> Map_keys (Map_set k v es) = Map_keys es"
  by (induction es) (force simp: Map_keys_def)+

lemma Map_keys_Map_set_new:
  "k \<notin> set (Map_keys es) \<Longrightarrow> Map_keys (Map_set k v es) = Map_keys es @ [k]"
  by (induction es) (auto simp: Map_keys_def)

lemma distinct_Map_set: "distinct (Map_keys es) \<Longrightarrow> distinct (Map_keys (Map_set k v es))"
  by (cases "k \<in> set (Map_keys es)") (simp_all add: Map_keys_Map_set_mem Map_keys_Map_set_new)

lemma set_Map_delete: "set (Map_delete k es) \<subseteq> set es"
  by (induction es) (auto split: if_splits)

lemma set_Map_keys_Map_delete: "set (Map_keys (Map_delete k es)) \<subseteq> set (Map_keys es)"
  using set_Map_delete [of k es] by (auto simp: Map_keys_def)

lemma distinct_Map_delete: "distinct (Map_keys es) \<Longrightarrow> distinct (Map_keys (Map_delete k es))"
proof (induction es)
  case Nil
  then show ?case by (simp add: Map_keys_def)
next
  case (Cons entry es)
  obtain k' v' where e: "entry = (k', v')" by (cases entry)
  from Cons.prems have d: "distinct (Map_keys es)" and n: "k' \<notin> set (Map_keys es)"
    by (simp_all add: Map_keys_def e)
  show ?case
  proof (cases "k' = k")
    case True
    with d show ?thesis by (simp add: e)
  next
    case False
    from n set_Map_keys_Map_delete [of k es] have "k' \<notin> set (Map_keys (Map_delete k es))"
      by blast
    with False Cons.IH [OF d] show ?thesis by (simp add: e Map_keys_def)
  qed
qed

lemma map_of_Map_set: "map_of (Map_set k v es) = (map_of es)(k \<mapsto> v)"
  by (induction es) (auto simp: fun_eq_iff)

lemma filter_Map_set:
  "distinct (Map_keys es) \<Longrightarrow> filter (\<lambda>entry. fst entry = k) (Map_set k v es) = [(k, v)]"
proof (induction es)
  case Nil
  then show ?case by simp
next
  case (Cons entry es)
  obtain k' v' where e: "entry = (k', v')" by (cases entry)
  from Cons.prems have d: "distinct (Map_keys es)" and n: "k' \<notin> set (Map_keys es)"
    by (simp_all add: Map_keys_def e)
  show ?case
  proof (cases "k' = k")
    case True
    with n have "filter (\<lambda>entry. fst entry = k) es = []"
      by (auto simp: Map_keys_def filter_empty_conv)
    with True show ?thesis by (simp add: e)
  next
    case False
    with Cons.IH [OF d] show ?thesis by (simp add: e)
  qed
qed

text \<open>Setting a key that is present rewrites its entry where it stands.\<close>

lemma Map_set_present:
  "k \<in> set (Map_keys es) \<Longrightarrow>
   \<exists>xs f ys. es = xs @ (k, f) # ys \<and> k \<notin> set (Map_keys xs) \<and> Map_set k g es = xs @ (k, g) # ys"
proof (induction es)
  case Nil
  then show ?case by (simp add: Map_keys_def)
next
  case (Cons entry es)
  obtain k' v' where e: "entry = (k', v')" by (cases entry)
  show ?case
  proof (cases "k' = k")
    case True
    have "entry # es = [] @ (k, v') # es \<and> k \<notin> set (Map_keys []) \<and>
          Map_set k g (entry # es) = [] @ (k, g) # es"
      using True by (simp add: e Map_keys_def)
    then show ?thesis by blast
  next
    case False
    with Cons.prems have "k \<in> set (Map_keys es)"
      by (simp add: e Map_keys_def)
    from Cons.IH [OF this] obtain xs f ys where
      h: "es = xs @ (k, f) # ys" "k \<notin> set (Map_keys xs)" "Map_set k g es = xs @ (k, g) # ys"
      by blast
    have "entry # es = (entry # xs) @ (k, f) # ys \<and> k \<notin> set (Map_keys (entry # xs)) \<and>
          Map_set k g (entry # es) = (entry # xs) @ (k, g) # ys"
      using False h by (simp add: e Map_keys_def)
    then show ?thesis by blast
  qed
qed

section \<open>The animation registry of a \<^verbatim>\<open>GameObject\<close>\<close>

lemma runUpdates_append:
  "runUpdates (fs @ gs) d e m = runUpdates gs d e (runUpdates fs d e m)"
  by (induction fs arbitrary: m) simp_all

lemma animations_simps:
  "animations (setPosition x y z this) = animations this"
  "animations (setRotation x y z this) = animations this"
  "animations (setScale s this) = animations this"
  "animations (setScaleXYZ x y z this) = animations this"
  "animations (setColor c this) = animations this"
  "animations (setVisible v this) = animations this"
  "animations (onUpdate fn this) = animations this"
  "animations (GameObject_update d e this) = animations this"
  "animations (clearAnimations this) = []"
  "animations (setAnimation n fn this) = Map_set n fn (animations this)"
  "animations (stopAnimation n this) = Map_delete n (animations this)"
  by (simp_all add: setPosition_def setRotation_def setScale_def setScaleXYZ_def setColor_def
      setVisible_def onUpdate_def GameObject_update_def clearAnimations_def setAnimation_def
      stopAnimation_def Let_def)

lemma distinct_perform:
  "distinct (Map_keys (animations this)) \<Longrightarrow> distinct (Map_keys (animations (perform this c)))"
  by (cases c)
    (simp_all add: animations_simps spin_def float_def Let_def distinct_Map_set
      distinct_Map_delete, simp add: Map_keys_def)

lemma distinct_performAll:
  "distinct (Map_keys (animations this)) \<Longrightarrow>
   distinct (Map_keys (animations (performAll cs this)))"
  unfolding performAll_def
  by (induction cs arbitrary: this) (simp_all add: distinct_perform)

lemma GameObject_new_registries:
  "GameObject_new cls options = Inr obj \<Longrightarrow> animations obj = [] \<and> customUpdates obj = []"
  by (auto simp: GameObject_new_def Let_def split: sum.splits)

lemma coralBox_constructed: "GameObject_new Box coralOptions = Inr coralBox"
  by (simp add: GameObject_new_def coralOptions_def coralBox_def Let_def orDefault_def
      createMaterial_def Mesh_new_def setPosition_def setRotation_def setScale_def degToRad_def
      NAMED_COLORS_get_def NAMED_COLORS_def toLowerChar_def upperToLower_def)

text \<open>
  C2. On an object built by the constructor and driven by any sequence of calls, the
  registry of named animations never holds two entries under one name; and after two
  update functions \<open>f\<close> then \<open>g\<close> are registered under the same name (through
  \<^verbatim>\<open>_setAnimation\<close>, or through \<^verbatim>\<open>spin\<close> or \<^verbatim>\<open>float\<close> called twice), the registry holds
  exactly one entry under that name, and it is the function registered last.
\<close>

theorem registry_one_entry_per_name:
  assumes "GameObject_new cls options = Inr obj0"
  shows "distinct (Map_keys (animations (performAll cs obj0))) \<and>
         filter (\<lambda>entry. fst entry = n)
           (animations (setAnimation n g (setAnimation n f (performAll cs obj0)))) = [(n, g)] \<and>
         filter (\<lambda>entry. fst entry = ''spin'')
           (animations (spin o2 (spin o1 (performAll cs obj0)))) =
           [(''spin'', spinFn (orDefault (speedX o2) 0) (orDefault (speedY o2) 1)
                          (orDefault (speedZ o2) 0))] \<and>
         filter (\<lambda>entry. fst entry = ''float'')
           (animations (float o4 (float o3 (performAll cs obj0)))) =
           [(''float'', floatFn (vec_y (position (mesh (float o3 (performAll cs obj0)))))
                          (orDefault (speed o4) 1) (orDefault (amplitude o4) 0.5))]"
proof -
  from assms have "distinct (Map_keys (animations obj0))"
    by (simp add: GameObject_new_registries Map_keys_def)
  then have d: "distinct (Map_keys (animations (performAll cs obj0)))"
    by (rule distinct_performAll)
  have d': "distinct (Map_keys (Map_set k v (animations (performAll cs obj0))))" for k v
    using d by (rule distinct_Map_set)
  show ?thesis
    using d d' by (simp add: animations_simps filter_Map_set spin_def float_def Let_def)
qed

text \<open>
  The theorem at the coral box of main.js, after it was set spinning and floating, updated
  once and its float stopped: \<^verbatim>\<open>spin\<close> is registered, then a function that does nothing is
  registered under the name \<^verbatim>\<open>spin\<close>.
\<close>

theorem registry_one_entry_per_name_witness:
  "GameObject_new Box coralOptions = Inr coralBox \<and>
   distinct (Map_keys (animations (performAll
      [Spin \<lparr>speedX = Some 0.5, speedY = Some 1, speedZ = None\<rparr>,
       Float \<lparr>amplitude = None, speed = None\<rparr>, Update 1 1, StopAnimation ''float'']
      coralBox))) \<and>
   filter (\<lambda>entry. fst entry = ''spin'')
     (animations (setAnimation ''spin'' (\<lambda>m delta elapsed. m)
        (setAnimation ''spin'' (spinFn 0 1 0) (performAll
      [Spin \<lparr>speedX = Some 0.5, speedY = Some 1, speedZ = None\<rparr>,
       Float \<lparr>amplitude = None, speed = None\<rparr>, Update 1 1, StopAnimation ''float'']
      coralBox)))) = [(''spin'', \<lambda>m delta elapsed. m)]"
proof -
  note h = coralBox_constructed
  from registry_one_entry_per_name [OF h, of
      "[Spin \<lparr>speedX = Some 0.5, speedY = Some 1, speedZ = None\<rparr>,
       Float \<lparr>amplitude = None, speed = None\<rparr>, Update 1 1, StopAnimation ''float'']"
      "''spin''" "\<lambda>m delta elapsed. m" "spinFn 0 1 0"] h
  show ?thesis
    by blast
qed

text \<open>Once the spin is replaced by a function that does nothing, an update leaves the mesh as it is.\<close>

lemma spin_replaced_by_noop:
  "mesh (GameObject_update 1 elapsed
     (setAnimation ''spin'' (\<lambda>m delta elapsed. m)
        (spin \<lparr>speedX = None, speedY = None, speedZ = None\<rparr> coralBox))) = mesh coralBox"
  by (simp add: spin_def setAnimation_def coralBox_def GameObject_update_def Let_def
      Map_values_def)

text \<open>
  C9. Registering an update function \<open>g\<close> under a name that the registry already holds
  keeps the name's place in the iteration order: the entries before and after it are the
  same, and during \<^verbatim>\<open>update\<close> the new function runs in that slot, after the animations
  registered before the name and before those registered after it.
\<close>

theorem replacement_keeps_slot:
  assumes "n \<in> set (Map_keys (animations this))"
  shows "\<exists>xs f ys.
           animations this = xs @ (n, f) # ys \<and> n \<notin> set (Map_keys xs) \<and>
           animations (setAnimation n g this) = xs @ (n, g) # ys \<and>
           mesh (GameObject_update d e (setAnimation n g this)) =
             runUpdates (customUpdates this) d e
               (runUpdates (Map_values ys) d e
                 (g (runUpdates (Map_values xs) d e (mesh this)) d e))"
proof -
  from Map_set_present [OF assms, of g] obtain xs f ys where
    h: "animations this = xs @ (n, f) # ys" "n \<notin> set (Map_keys xs)"
       "Map_set n g (animations this) = xs @ (n, g) # ys"
    by blast
  have "mesh (GameObject_update d e (setAnimation n g this)) =
             runUpdates (customUpdates this) d e
               (runUpdates (Map_values ys) d e
                 (g (runUpdates (Map_values xs) d e (mesh this)) d e))"
    by (simp add: GameObject_update_def setAnimation_def Let_def h(3) Map_values_def
        runUpdates_append)
  with h show ?thesis
    by (auto simp: setAnimation_def)
qed

text \<open>
  The theorem at the coral box with \<^verbatim>\<open>spin\<close> registered before \<^verbatim>\<open>float\<close>, when \<^verbatim>\<open>spin\<close> is
  registered again.
\<close>

theorem replacement_keeps_slot_witness:
  "''spin'' \<in> set (Map_keys (animations
      (float \<lparr>amplitude = None, speed = None\<rparr>
        (spin \<lparr>speedX = None, speedY = None, speedZ = None\<rparr> coralBox)))) \<and>
   (\<exists>xs f ys.
      animations (float \<lparr>amplitude = None, speed = None\<rparr>
        (spin \<lparr>speedX = None, speedY = None, speedZ = None\<rparr> coralBox)) = xs @ (''spin'', f) # ys \<and>
      ''spin'' \<notin> set (Map_keys xs) \<and>
      animations (setAnimation ''spin'' (spinFn 0 2 0)
        (float \<lparr>amplitude = None, speed = None\<rparr>
          (spin \<lparr>speedX = None, speedY = None, speedZ = None\<rparr> coralBox))) =
        xs @ (''spin'', spinFn 0 2 0) # ys)"
proof -
  have h: "''spin'' \<in> set (Map_keys (animations
      (float \<lparr>amplitude = None, speed = None\<rparr>
        (spin \<lparr>speedX = None, speedY = None, speedZ = None\<rparr> coralBox))))"
    by (simp add: float_def spin_def setAnimation_def Let_def Map_keys_def coralBox_def)
  from replacement_keeps_slot [OF h, of "spinFn 0 2 0" 0 0] h show ?thesis
    by blast
qed

lemma replacement_order_example:
  "Map_keys (animations (setAnimation ''spin'' g
      (float \<lparr>amplitude = None, speed = None\<rparr>
        (spin \<lparr>speedX = None, speedY = None, speedZ = None\<rparr> coralBox)))) = [''spin'', ''float'']"
  by (simp add: float_def spin_def setAnimation_def Let_def Map_keys_def coralBox_def)

section \<open>Rounding to the nearest double\<close>

lemma exponent_eq:
  "2 powr of_int k \<le> \<bar>x\<bar> \<Longrightarrow> \<bar>x\<bar> < 2 powr of_int (k + 1) \<Longrightarrow> exponent x = k"
proof -
  assume a: "2 powr of_int k \<le> \<bar>x\<bar>" and b: "\<bar>x\<bar> < 2 powr of_int (k + 1)"
  have "0 < (2::real) powr of_int k" by simp
  with a have p: "0 < \<bar>x\<bar>" by linarith
  from floor_log_eq_powr_iff [OF p, of 2 k] a b show ?thesis
    by (simp add: exponent_def)
qed

lemma ulp_pos: "0 < ulp x"
  by (simp add: ulp_def)

lemma roundTiesToEven_int: "roundTiesToEven (of_int n) = n"
  by (simp add: roundTiesToEven_def)

lemma roundTiesToEven_tie_even: "even n \<Longrightarrow> roundTiesToEven (of_int n + 1 / 2) = n"
proof -
  have f: "\<lfloor>of_int n + (1 / 2 :: real)\<rfloor> = n"
    by linarith
  assume "even n"
  then show ?thesis
    unfolding roundTiesToEven_def Let_def f by simp
qed




text \<open>A multiple of the spacing is a double; a tie goes to the even neighbour.\<close>

lemma roundToDouble_exact:
  assumes "ulp x = u" and "x = of_int n * u"
  shows "roundToDouble x = x"
proof (cases "x = 0")
  case True
  then show ?thesis by (simp add: roundToDouble_def)
next
  case False
  from ulp_pos [of x] assms(1) have u: "u \<noteq> 0" by simp
  with assms(2) have "x / u = of_int n" by simp
  then have "roundTiesToEven (x / ulp x) = n"
    by (simp only: assms(1) roundTiesToEven_int)
  with False assms show ?thesis
    by (simp add: roundToDouble_def)
qed

lemma roundToDouble_tie:
  assumes "ulp x = u" and "x = (of_int n + 1 / 2) * u" and "even n" and "x \<noteq> 0"
  shows "roundToDouble x = of_int n * u"
proof -
  from ulp_pos [of x] assms(1) have u: "u \<noteq> 0" by simp
  with assms(2) have "x / u = of_int n + 1 / 2" by simp
  then have "roundTiesToEven (x / ulp x) = n"
    by (simp only: assms(1) roundTiesToEven_tie_even [OF assms(3)])
  with assms show ?thesis
    by (simp add: roundToDouble_def)
qed



lemma isDouble_0: "isDouble 0"
  by (simp add: isDouble_def roundToDouble_def)

lemma ulp_1: "ulp 1 = 2 powr - 52"
proof -
  have "exponent 1 = 0"
    by (rule exponent_eq) simp_all
  then show ?thesis by (simp add: ulp_def)
qed

lemma isDouble_1: "isDouble 1"
  unfolding isDouble_def
proof (rule roundToDouble_exact [OF ulp_1, of "2 ^ 52"])
  show "(1::real) = of_int (2 ^ 52) * 2 powr - 52"
    by (simp add: powr_minus_divide)
qed



lemma ulp_2_53: "ulp (2 ^ 53) = 2"
proof -
  have "exponent (2 ^ 53) = 53"
    by (rule exponent_eq) (simp_all add: powr_numeral)
  then show ?thesis by (simp add: ulp_def)
qed

lemma isDouble_2_53: "isDouble (2 ^ 53)"
  unfolding isDouble_def
proof (rule roundToDouble_exact [OF ulp_2_53, of "2 ^ 52"])
  show "(2::real) ^ 53 = of_int (2 ^ 52) * 2"
    by simp
qed

lemma ulp_2_53_1: "ulp (2 ^ 53 + 1) = 2"
proof -
  have "exponent (2 ^ 53 + 1) = 53"
    by (rule exponent_eq) (simp_all add: powr_numeral)
  then show ?thesis by (simp add: ulp_def)
qed

text \<open>\<open>2 ^ 53 + 1\<close> lies halfway between two doubles and goes to the even one, \<open>2 ^ 53\<close>.\<close>

lemma roundToDouble_2_53_1: "roundToDouble (2 ^ 53 + 1) = 2 ^ 53"
proof -
  have "roundToDouble (2 ^ 53 + 1) = of_int (2 ^ 52) * 2"
  proof (rule roundToDouble_tie [OF ulp_2_53_1])
    show "(2::real) ^ 53 + 1 = (of_int (2 ^ 52) + 1 / 2) * 2"
      by simp
    show "even ((2::int) ^ 52)"
      by simp
    show "(2::real) ^ 53 + 1 \<noteq> 0"
      by simp
  qed
  then show ?thesis
    by simp
qed








lemma Math_sin_0: "Math_sin (fmul 0 s) = 0"
  by (simp add: Math_sin_def fmul_def roundToDouble_def)

lemma fmul_0_left: "fmul 0 y = 0"
  by (simp add: fmul_def roundToDouble_def)

lemma fmul_1_1: "fmul 1 1 = 1"
  using isDouble_1 by (simp add: fmul_def isDouble_def)


lemma fadd_0_right: "fadd x 0 = roundToDouble x"
  by (simp add: fadd_def)

section \<open>The built-in animations and the rotation setter\<close>









text \<open>
  C3, as stated: with \<^verbatim>\<open>spin\<close> registered with speedY = 1 and speedX = speedZ = 0, running
  the registered function once with delta = 1 increases the Y rotation by exactly 1. The
  addition \<^verbatim>\<open>rotation.y += speedY * delta\<close> is an addition of doubles: at the Y rotation
  \<open>2 ^ 53\<close>, which is a double, the sum \<open>2 ^ 53 + 1\<close> is none and rounds back to \<open>2 ^ 53\<close>,
  so the increase is 0.
\<close>

theorem spin_rounding_counterexample:
  "isDouble (2 ^ 53) \<and>
   map_of (animations (spin \<lparr>speedX = Some 0, speedY = Some 1, speedZ = Some 0\<rparr> coralBox)) ''spin''
     = Some (spinFn 0 1 0) \<and>
   rot_y (rotation (spinFn 0 1 0
     ((mesh coralBox)\<lparr>rotation := \<lparr>rot_x = 0, rot_y = 2 ^ 53, rot_z = 0\<rparr>\<rparr>) 1 0)) = 2 ^ 53"
proof -
  have "fadd (2 ^ 53) (fmul 1 1) = 2 ^ 53"
    by (simp only: fmul_1_1 fadd_def roundToDouble_2_53_1)
  then show ?thesis
    using isDouble_2_53
    by (simp add: spinFn_def spin_def Let_def orDefault_def setAnimation_def map_of_Map_set)
qed

text \<open>
  C3, amended: with \<^verbatim>\<open>spin\<close> registered with speedY = 1 and speedX = speedZ = 0 (given, or
  by default), the function registered under \<^verbatim>\<open>spin\<close>, run once with delta = 1 on a mesh
  whose X and Z rotations are doubles, leaves the X and Z rotation and the rest of the mesh
  as they were and sets the Y rotation to the double nearest to Y + 1; the increase is
  exactly 1 whenever Y + 1 is a double. One \<^verbatim>\<open>update\<close> with delta = 1 of an object that has
  no other animation does what that function does.
\<close>

theorem spin_once:
  assumes "isDouble (rot_x (rotation m))" and "isDouble (rot_z (rotation m))"
  shows
  "map_of (animations (spin \<lparr>speedX = Some 0, speedY = Some 1, speedZ = Some 0\<rparr> this)) ''spin''
     = Some (spinFn 0 1 0) \<and>
   map_of (animations (spin \<lparr>speedX = None, speedY = None, speedZ = None\<rparr> this)) ''spin''
     = Some (spinFn 0 1 0) \<and>
   spinFn 0 1 0 m 1 elapsed =
     m\<lparr>rotation := (rotation m)\<lparr>rot_y := roundToDouble (rot_y (rotation m) + 1)\<rparr>\<rparr> \<and>
   (isDouble (rot_y (rotation m) + 1) \<longrightarrow>
      spinFn 0 1 0 m 1 elapsed = m\<lparr>rotation := (rotation m)\<lparr>rot_y := rot_y (rotation m) + 1\<rparr>\<rparr>) \<and>
   mesh (GameObject_update 1 elapsed
          (spin \<lparr>speedX = Some 0, speedY = Some 1, speedZ = Some 0\<rparr> (clearAnimations this)))
     = spinFn 0 1 0 (mesh this) 1 elapsed"
proof -
  have x: "fadd (rot_x (rotation m)) (fmul 0 1) = rot_x (rotation m)"
    using assms(1) by (simp add: fmul_0_left fadd_0_right isDouble_def)
  have z: "fadd (rot_z (rotation m)) (fmul 0 1) = rot_z (rotation m)"
    using assms(2) by (simp add: fmul_0_left fadd_0_right isDouble_def)
  have y: "fadd (rot_y (rotation m)) (fmul 1 1) = roundToDouble (rot_y (rotation m) + 1)"
    by (simp add: fmul_1_1 fadd_def)
  have s: "spinFn 0 1 0 m 1 elapsed =
     m\<lparr>rotation := (rotation m)\<lparr>rot_y := roundToDouble (rot_y (rotation m) + 1)\<rparr>\<rparr>"
    by (simp add: spinFn_def x y z)
  have r: "map_of (animations (spin \<lparr>speedX = Some 0, speedY = Some 1, speedZ = Some 0\<rparr> this)) ''spin''
     = Some (spinFn 0 1 0) \<and>
   map_of (animations (spin \<lparr>speedX = None, speedY = None, speedZ = None\<rparr> this)) ''spin''
     = Some (spinFn 0 1 0)"
    by (simp add: spin_def Let_def orDefault_def animations_simps map_of_Map_set)
  have u: "mesh (GameObject_update 1 elapsed
          (spin \<lparr>speedX = Some 0, speedY = Some 1, speedZ = Some 0\<rparr> (clearAnimations this)))
     = spinFn 0 1 0 (mesh this) 1 elapsed"
    by (simp add: spin_def Let_def orDefault_def GameObject_update_def clearAnimations_def
        setAnimation_def Map_values_def)
  from s r u show ?thesis
    by (simp add: isDouble_def)
qed

text \<open>
  The theorem at the mesh of the coral box as the constructor leaves it, with Y rotation 0:
  the increase is exactly 1.
\<close>

theorem spin_once_witness:
  "isDouble (rot_x (rotation (mesh coralBox))) \<and> isDouble (rot_z (rotation (mesh coralBox))) \<and>
   isDouble (rot_y (rotation (mesh coralBox)) + 1) \<and>
   spinFn 0 1 0 (mesh coralBox) 1 0 =
     (mesh coralBox)\<lparr>rotation := (rotation (mesh coralBox))\<lparr>rot_y := rot_y (rotation (mesh coralBox)) + 1\<rparr>\<rparr> \<and>
   rot_y (rotation (mesh coralBox)) + 1 = 1"
proof -
  have h: "isDouble (rot_x (rotation (mesh coralBox)))" "isDouble (rot_z (rotation (mesh coralBox)))"
    "isDouble (rot_y (rotation (mesh coralBox)) + 1)"
    using isDouble_0 isDouble_1 by (simp_all add: coralBox_def)
  have "rot_y (rotation (mesh coralBox)) + 1 = 1"
    by (simp add: coralBox_def)
  with spin_once [OF h(1,2), of coralBox 0] h show ?thesis
    by blast
qed




text \<open>A stored angle differs from the angle in degrees, unless that is zero.\<close>

lemma degToRad_not_degrees: "x \<noteq> 0 \<Longrightarrow> degToRad x \<noteq> x"
proof
  assume x: "x \<noteq> 0" and e: "degToRad x = x"
  from e have "x * (pi / 180 - 1) = 0"
    by (simp add: degToRad_def algebra_simps)
  with x have "pi = 180"
    by simp
  with pi_less_4 show False
    by simp
qed

text \<open>
  C8. The rotation that \<^verbatim>\<open>setRotation\<close> stores for angles given in degrees is each angle
  times pi / 180, and so is the rotation of an object the constructor returns, for the
  angles of its options (0 where an angle is absent).
\<close>

theorem rotation_in_radians:
  "rotation (mesh (setRotation x y z this)) =
     \<lparr>rot_x = x * (pi / 180), rot_y = y * (pi / 180), rot_z = z * (pi / 180)\<rparr> \<and>
   (GameObject_new cls options = Inr obj \<longrightarrow>
      rotation (mesh obj) =
        \<lparr>rot_x = orDefault (opt_rotationX options) 0 * (pi / 180),
         rot_y = orDefault (opt_rotationY options) 0 * (pi / 180),
         rot_z = orDefault (opt_rotationZ options) 0 * (pi / 180)\<rparr>)"
  by (auto simp: setRotation_def degToRad_def GameObject_new_def Let_def setScale_def
      setPosition_def split: sum.splits)

text \<open>The theorem at the coral box constructed with \<^verbatim>\<open>rotationY: 90\<close>: a quarter turn, pi / 2.\<close>

theorem rotation_in_radians_witness:
  "GameObject_new Box (coralOptions\<lparr>opt_rotationY := Some 90\<rparr>) = Inr (setRotation 0 90 0 coralBox) \<and>
   rotation (mesh (setRotation 0 90 0 coralBox)) = \<lparr>rot_x = 0, rot_y = pi / 2, rot_z = 0\<rparr>"
proof -
  have h: "GameObject_new Box (coralOptions\<lparr>opt_rotationY := Some 90\<rparr>) =
           Inr (setRotation 0 90 0 coralBox)"
    by (simp add: GameObject_new_def coralOptions_def coralBox_def Let_def orDefault_def
      createMaterial_def Mesh_new_def setPosition_def setRotation_def setScale_def degToRad_def
      NAMED_COLORS_get_def NAMED_COLORS_def toLowerChar_def upperToLower_def)
  from rotation_in_radians [of 0 90 0 coralBox Box "coralOptions\<lparr>opt_rotationY := Some 90\<rparr>"
      "setRotation 0 90 0 coralBox"] h
  show ?thesis
    by (simp add: coralOptions_def orDefault_def)
qed

section \<open>Adding to and removing from a \<^verbatim>\<open>Scene\<close>\<close>

lemma mainScene_built: "Scene_add (JSGameObject 0) (Scene_new True) = Inr mainScene"
  by (simp add: Scene_new_def mainScene_def Object3D_add_def)

text \<open>
  C7. On a scene whose tracked array is empty, \<^verbatim>\<open>add\<close> of a \<^verbatim>\<open>GameObject\<close> followed by
  \<^verbatim>\<open>remove\<close> of the same object both return, the tracked array is empty again, and
  \<^verbatim>\<open>findByName\<close> of the object's name yields \<^verbatim>\<open>undefined\<close>.
\<close>

theorem add_then_remove:
  assumes "gameObjects this = []"
  shows "\<exists>s1 s2. Scene_add (JSGameObject r) this = Inr s1 \<and>
           Scene_remove (JSGameObject r) s1 = Inr s2 \<and>
           gameObjects s2 = [] \<and>
           Scene_findByName h (name (h r)) s2 = JSUndefined"
  using assms by (simp add: Let_def splice1_def Scene_findByName_def)

text \<open>The theorem at a newly constructed scene with default lighting and the object at address 0.\<close>

theorem add_then_remove_witness:
  "gameObjects (Scene_new True) = [] \<and>
   (\<exists>s1 s2. Scene_add (JSGameObject 0) (Scene_new True) = Inr s1 \<and>
           Scene_remove (JSGameObject 0) s1 = Inr s2 \<and>
           gameObjects s2 = [] \<and>
           Scene_findByName (objects mainWorld) (name (objects mainWorld 0)) s2 = JSUndefined)"
proof -
  have e: "gameObjects (Scene_new True) = []"
    by (simp add: Scene_new_def)
  from add_then_remove [OF e, of 0 "objects mainWorld"] e show ?thesis
    by blast
qed

text \<open>
  C10, as stated: for every argument that neither has a \<^verbatim>\<open>mesh\<close> property nor is a
  render-graph node, \<^verbatim>\<open>add\<close> and \<^verbatim>\<open>remove\<close> change nothing, raise no error and return the
  scene. \<^verbatim>\<open>null\<close> and \<^verbatim>\<open>undefined\<close> are such arguments, and on them the read of
  \<^verbatim>\<open>object.mesh\<close> throws a \<^verbatim>\<open>TypeError\<close>.
\<close>

theorem add_nullish_counterexample:
  "\<not> hasMesh JSNull \<and> \<not> instanceofObject3D JSNull \<and>
   Scene_add JSNull mainScene = Inl TypeError \<and>
   \<not> hasMesh JSUndefined \<and> \<not> instanceofObject3D JSUndefined \<and>
   Scene_remove JSUndefined mainScene = Inl TypeError"
  by simp

text \<open>
  This is how \<^verbatim>\<open>scene.remove(scene.findByName(name))\<close> ends when no tracked object has the
  name.
\<close>

lemma remove_missing_name:
  "Scene_remove (Scene_findByName (objects mainWorld) ''floor'' mainScene) mainScene
     = Inl TypeError"
  by (simp add: Scene_findByName_def mainScene_def mainWorld_def World_new_def spin_def
      setAnimation_def coralBox_def Let_def)

text \<open>
  C10, amended: for every argument other than \<^verbatim>\<open>null\<close> and \<^verbatim>\<open>undefined\<close> that neither has
  a \<^verbatim>\<open>mesh\<close> property nor is a render-graph node, \<^verbatim>\<open>add\<close> and \<^verbatim>\<open>remove\<close> raise no error
  and return the scene with its tracked array and its render graph unchanged.
\<close>

theorem add_remove_ignore_other_values:
  assumes "\<not> nullish object" and "\<not> hasMesh object" and "\<not> instanceofObject3D object"
  shows "Scene_add object this = Inr this \<and> Scene_remove object this = Inr this"
  using assms by (cases object) simp_all

theorem add_remove_ignore_other_values_witness:
  "\<not> nullish (JSNumber 5) \<and> \<not> hasMesh (JSNumber 5) \<and> \<not> instanceofObject3D (JSNumber 5) \<and>
   Scene_add (JSNumber 5) mainScene = Inr mainScene \<and>
   Scene_remove (JSNumber 5) mainScene = Inr mainScene"
  using add_remove_ignore_other_values [of "JSNumber 5" mainScene] by simp

section \<open>The frame loop of the \<^verbatim>\<open>Engine\<close>\<close>

lemma fire_not_running: "\<not> isRunning (engine w) \<Longrightarrow> fire k d e w = w"
  by (induction k) (simp_all add: Engine_animate_def)

lemma animate_running:
  "isRunning (engine w) \<Longrightarrow>
   rafQueue (Engine_animate d e w) = Suc (rafQueue w) \<and>
   engine (Engine_animate d e w) = engine w"
  by (simp add: Engine_animate_def Let_def split: option.splits)

lemma fire_running:
  "isRunning (engine w) \<Longrightarrow>
   rafQueue (fire k d e w) = rafQueue w + k \<and> engine (fire k d e w) = engine w"
proof (induction k arbitrary: w)
  case 0
  then show ?case by simp
next
  case (Suc k)
  from animate_running [OF Suc.prems, of d e]
  have a: "rafQueue (Engine_animate d e w) = Suc (rafQueue w)"
    and b: "engine (Engine_animate d e w) = engine w"
    by simp_all
  from Suc.prems b have "isRunning (engine (Engine_animate d e w))"
    by simp
  from Suc.IH [OF this] a b show ?case
    by simp
qed

text \<open>While the engine runs, a frame registers as many callbacks as it fired.\<close>

lemma frame_running:
  "isRunning (engine w) \<Longrightarrow>
   rafQueue (frame d e w) = rafQueue w \<and> engine (frame d e w) = engine w"
proof -
  assume r: "isRunning (engine w)"
  then have "isRunning (engine (w\<lparr>rafQueue := 0\<rparr>))"
    by simp
  from fire_running [OF this, of "rafQueue w" d e] show ?thesis
    by (simp add: frame_def)
qed

lemma frames_running:
  "isRunning (engine w) \<Longrightarrow>
   rafQueue (exec (map (\<lambda>(d, e). Frame d e) ts) w) = rafQueue w \<and>
   engine (exec (map (\<lambda>(d, e). Frame d e) ts) w) = engine w"
proof (induction ts arbitrary: w)
  case Nil
  then show ?case by (simp add: exec_def)
next
  case (Cons t ts)
  obtain d e where t: "t = (d, e)" by (cases t)
  from frame_running [OF Cons.prems, of d e]
  have a: "rafQueue (frame d e w) = rafQueue w" and b: "engine (frame d e w) = engine w"
    by simp_all
  from Cons.prems b have "isRunning (engine (frame d e w))"
    by simp
  from Cons.IH [OF this] a b show ?case
    by (simp add: exec_def t)
qed

text \<open>Every call of \<^verbatim>\<open>run\<close> registers one more callback, whatever is registered already.\<close>

lemma run_effect:
  "isRunning (engine (Engine_run s d e w)) \<and> activeScene (engine (Engine_run s d e w)) = s \<and>
   rafQueue (Engine_run s d e w) = Suc (rafQueue w)"
  by (simp add: Engine_run_def Engine_animate_def Let_def split: option.splits)

text \<open>
  C6. After \<^verbatim>\<open>stop()\<close>, a frame callback that was already registered returns at once: it
  updates no object, draws nothing and registers no callback, so the world is as
  \<^verbatim>\<open>stop()\<close> left it; and after the frame that fires the registered callbacks, none is
  registered.
\<close>

theorem stop_then_tick:
  "Engine_animate d e (Engine_stop w) = Engine_stop w \<and>
   frame d e (Engine_stop w) = (Engine_stop w)\<lparr>rafQueue := 0\<rparr> \<and>
   objects (frame d e (Engine_stop w)) = objects w \<and>
   drawCalls (frame d e (Engine_stop w)) = drawCalls w \<and>
   rafQueue (frame d e (Engine_stop w)) = 0"
proof -
  have n: "\<not> isRunning (engine ((Engine_stop w)\<lparr>rafQueue := 0\<rparr>))"
    by (simp add: Engine_stop_def)
  have f: "frame d e (Engine_stop w) = (Engine_stop w)\<lparr>rafQueue := 0\<rparr>"
    unfolding frame_def using fire_not_running [OF n] by simp
  have a: "Engine_animate d e (Engine_stop w) = Engine_stop w"
    by (simp add: Engine_animate_def Engine_stop_def)
  from a f show ?thesis
    by (simp add: Engine_stop_def)
qed

text \<open>
  C1, as stated: while \<^verbatim>\<open>isRunning\<close> is false no frame callback is scheduled, and after
  any sequence of \<^verbatim>\<open>run\<close> calls at most one continuation is scheduled per frame. In the
  world of main.js, two calls of \<^verbatim>\<open>run\<close> leave two callbacks registered, and the next
  frame registers two again; and after \<^verbatim>\<open>run\<close> then \<^verbatim>\<open>stop\<close>, \<^verbatim>\<open>isRunning\<close> is false
  while one callback is still registered.
\<close>

theorem run_twice_counterexample:
  "rafQueue (exec [Run (Some 0) 0 0, Run (Some 1) 0 0] mainWorld) = 2 \<and>
   rafQueue (exec [Run (Some 0) 0 0, Run (Some 1) 0 0, Frame 0 0] mainWorld) = 2 \<and>
   \<not> isRunning (engine (exec [Run (Some 0) 0 0, Stop] mainWorld)) \<and>
   rafQueue (exec [Run (Some 0) 0 0, Stop] mainWorld) = 1"
  by (simp add: exec_def mainWorld_def World_new_def Engine_new_def Engine_run_def
      Engine_animate_def Engine_stop_def frame_def Let_def)

text \<open>
  With two callbacks registered, every frame updates and draws the active scene twice:
  the draw calls of two \<^verbatim>\<open>run\<close>s followed by one frame.
\<close>

lemma run_twice_draws_twice:
  "drawCalls (exec [Run (Some 0) 0 0, Run (Some 1) 0 0, Frame 1 1] mainWorld) = [0, 1, 1, 1]"
  by (simp add: exec_def mainWorld_def World_new_def Engine_new_def Engine_run_def
      Engine_animate_def Let_def Scene_update_def mainScene_def frame_def)

text \<open>
  C1, amended: while \<^verbatim>\<open>isRunning\<close> is false a frame callback that fires changes nothing
  and registers nothing, so that after the next frame no callback is registered; and
  \<^verbatim>\<open>run\<close>, called when no callback is registered, sets the active scene, sets \<^verbatim>\<open>isRunning\<close>
  and registers exactly one callback, after which the engine is running and exactly one
  callback is registered after every frame, for any number of frames. Whenever it is
  called, also on a running engine, \<^verbatim>\<open>run\<close> makes its argument the active scene and leaves
  the engine running.
\<close>

theorem engine_loop:
  "(\<not> isRunning (engine w) \<longrightarrow>
      Engine_animate d e w = w \<and> rafQueue (frame d e w) = 0) \<and>
   (rafQueue w = 0 \<longrightarrow>
      isRunning (engine (Engine_run s d e w)) \<and>
      activeScene (engine (Engine_run s d e w)) = s \<and>
      rafQueue (Engine_run s d e w) = 1 \<and>
      isRunning (engine (exec (map (\<lambda>(d, e). Frame d e) ts) (Engine_run s d e w))) \<and>
      rafQueue (exec (map (\<lambda>(d, e). Frame d e) ts) (Engine_run s d e w)) = 1) \<and>
   isRunning (engine (Engine_run s d e w)) \<and>
   activeScene (engine (Engine_run s d e w)) = s"
proof -
  have 1: "Engine_animate d e w = w \<and> rafQueue (frame d e w) = 0" if "\<not> isRunning (engine w)"
  proof -
    from that have "\<not> isRunning (engine (w\<lparr>rafQueue := 0\<rparr>))"
      by simp
    from fire_not_running [OF this] that show ?thesis
      by (simp add: frame_def Engine_animate_def)
  qed
  have r: "isRunning (engine (Engine_run s d e w))"
    using run_effect [of s d e w] by simp
  from frames_running [OF r, of ts] run_effect [of s d e w] 1 show ?thesis
    by simp
qed

text \<open>The theorem at the world of main.js, with \<^verbatim>\<open>run\<close> followed by three frames.\<close>

theorem engine_loop_witness:
  "\<not> isRunning (engine mainWorld) \<and> rafQueue mainWorld = 0 \<and>
   Engine_animate 0 0 mainWorld = mainWorld \<and>
   rafQueue (Engine_run (Some 0) 0 0 mainWorld) = 1 \<and>
   rafQueue (exec (map (\<lambda>(d, e). Frame d e) [(1, 1), (1, 2), (1, 3)])
      (Engine_run (Some 0) 0 0 mainWorld)) = 1"
proof -
  have h: "\<not> isRunning (engine mainWorld)" "rafQueue mainWorld = 0"
    by (simp_all add: mainWorld_def World_new_def Engine_new_def)
  from engine_loop [of mainWorld 0 0 "Some 0" "[(1, 1), (1, 2), (1, 3)]"] h show ?thesis
    by blast
qed

end
